theory Spec2Isabelle
  imports Main
begin

section \<open>Python built-ins used by \<^verbatim>\<open>chat_memory.py\<close>\<close>

text \<open>
  Python strings are modelled as \<^typ>\<open>string\<close>; a \<^typ>\<open>char\<close> stands for a code point
  below 256. \<^verbatim>\<open>str.isspace\<close> holds in that range for the code points 9-13, 28-32,
  133 and 160, and \<^verbatim>\<open>str.strip()\<close> removes exactly those from both ends.
\<close>

definition isspace :: "char \<Rightarrow> bool" where
  "isspace c =
     (let n = (of_char c :: nat)
      in (9 \<le> n \<and> n \<le> 13) \<or> (28 \<le> n \<and> n \<le> 32) \<or> n = 133 \<or> n = 160)"

definition strip :: "string \<Rightarrow> string" where
  "strip s = rev (dropWhile isspace (rev (dropWhile isspace s)))"

text \<open>\<^verbatim>\<open>sep.join(lines)\<close>: the separator stands between neighbours only.\<close>

fun join :: "string \<Rightarrow> string list \<Rightarrow> string" where
  "join sep [] = []"
| "join sep [x] = x"
| "join sep (x # y # ys) = x @ sep @ join sep (y # ys)"

abbreviation newline :: string where
  "newline \<equiv> [CHR 0x0A]"

subsection \<open>\<^verbatim>\<open>collections.deque\<close> with a \<^verbatim>\<open>maxlen\<close>\<close>

datatype error = ValueError | OverflowError

record 'a deque =
  items :: "'a list"
  maxlen :: nat

text \<open>The largest \<^verbatim>\<open>Py_ssize_t\<close> of a 64-bit CPython (\<^verbatim>\<open>sys.maxsize\<close>).\<close>

definition PY_SSIZE_T_MAX :: int where
  "PY_SSIZE_T_MAX = 2 ^ 63 - 1"

text \<open>
  \<^verbatim>\<open>deque(maxlen=n)\<close>: \<^verbatim>\<open>n\<close> is converted to a \<^verbatim>\<open>Py_ssize_t\<close> (OverflowError when it
  does not fit), a negative \<^verbatim>\<open>n\<close> is refused with ValueError, and \<^verbatim>\<open>n = 0\<close> is
  accepted.
\<close>

definition deque_new :: "int \<Rightarrow> error + 'a deque" where
  "deque_new n =
     (if PY_SSIZE_T_MAX < n \<or> n < - PY_SSIZE_T_MAX - 1 then Inl OverflowError
      else if n < 0 then Inl ValueError
      else Inr \<lparr>items = [], maxlen = nat n\<rparr>)"

text \<open>
  \<^verbatim>\<open>deque.append(x)\<close>: the item is put at the right end, and when the deque is then
  longer than \<^verbatim>\<open>maxlen\<close> one item is popped from the left end.
\<close>

definition deque_append :: "'a \<Rightarrow> 'a deque \<Rightarrow> 'a deque" where
  "deque_append x d =
     (let xs = items d @ [x]
      in d\<lparr>items := (if maxlen d < length xs then tl xs else xs)\<rparr>)"

definition deque_clear :: "'a deque \<Rightarrow> 'a deque" where
  "deque_clear d = d\<lparr>items := []\<rparr>"

section \<open>\<^verbatim>\<open>ChatMemory\<close>\<close>

text \<open>Each turn is stored as the tuple \<^verbatim>\<open>(role, text)\<close>, both Python strings.\<close>

type_synonym turn = "string \<times> string"

record chat_memory =
  buffer :: "turn deque"
  max_turns :: int

text \<open>\<^verbatim>\<open>__init__\<close>: the only step that can raise is the construction of the deque.\<close>

definition ChatMemory_init :: "int \<Rightarrow> error + chat_memory" where
  "ChatMemory_init n =
     (case deque_new (n * 2) of
        Inl e \<Rightarrow> Inl e
      | Inr d \<Rightarrow> Inr \<lparr>buffer = d, max_turns = n\<rparr>)"

definition add_user :: "string \<Rightarrow> chat_memory \<Rightarrow> chat_memory" where
  "add_user text m = m\<lparr>buffer := deque_append (''user'', strip text) (buffer m)\<rparr>"

definition add_bot :: "string \<Rightarrow> chat_memory \<Rightarrow> chat_memory" where
  "add_bot text m = m\<lparr>buffer := deque_append (''bot'', strip text) (buffer m)\<rparr>"

text \<open>
  The \<^verbatim>\<open>for role, text in self.buffer\<close> loop of \<^verbatim>\<open>get_prompt_context\<close>, with the
  list \<^verbatim>\<open>lines\<close> as its accumulator.
\<close>

fun render_loop :: "string list \<Rightarrow> turn list \<Rightarrow> string list" where
  "render_loop lines [] = lines"
| "render_loop lines ((role, text) # rest) =
     render_loop
       (lines @ [if role = ''user'' then ''User: '' @ text else ''Bot: '' @ text]) rest"

text \<open>
  \<^verbatim>\<open>get_prompt_context\<close> returns the prompt together with the memory it leaves
  behind. \<^verbatim>\<open>if system_prompt:\<close> is Python truthiness: \<^verbatim>\<open>None\<close> and the empty string
  are false, every other string is true.
\<close>

definition get_prompt_context :: "string option \<Rightarrow> chat_memory \<Rightarrow> string \<times> chat_memory" where
  "get_prompt_context system_prompt m =
     (let lines = [];
          lines = (case system_prompt of
                     None \<Rightarrow> lines
                   | Some sp \<Rightarrow> if sp = [] then lines else lines @ [strip sp]);
          lines = render_loop lines (items (buffer m))
      in (join newline lines, m))"

definition clear :: "chat_memory \<Rightarrow> chat_memory" where
  "clear m = m\<lparr>buffer := deque_clear (buffer m)\<rparr>"

text \<open>
  The line that the loop of \<^verbatim>\<open>get_prompt_context\<close> appends for one stored turn: every
  role other than \<^verbatim>\<open>"user"\<close> takes the \<^verbatim>\<open>else\<close> branch.
\<close>

definition turn_line :: "turn \<Rightarrow> string" where
  "turn_line t = (if fst t = ''user'' then ''User: '' @ snd t else ''Bot: '' @ snd t)"

subsection \<open>Sequences of calls\<close>

datatype call = AddUser string | AddBot string | GetPromptContext "string option" | Clear

fun apply_call :: "call \<Rightarrow> chat_memory \<Rightarrow> chat_memory" where
  "apply_call (AddUser s) m = add_user s m"
| "apply_call (AddBot s) m = add_bot s m"
| "apply_call (GetPromptContext sp) m = snd (get_prompt_context sp m)"
| "apply_call Clear m = clear m"

definition run :: "call list \<Rightarrow> chat_memory \<Rightarrow> chat_memory" where
  "run calls m = foldl (\<lambda>st c. apply_call c st) m calls"

text \<open>What holds of every memory built by \<^const>\<open>ChatMemory_init\<close> and then only called.\<close>

definition window_inv :: "int \<Rightarrow> chat_memory \<Rightarrow> bool" where
  "window_inv N m =
     (max_turns m = N \<and> int (maxlen (buffer m)) = N * 2 \<and>
      length (items (buffer m)) \<le> maxlen (buffer m))"

section \<open>Auxiliary facts\<close>

subsection \<open>Trimming\<close>

lemma last_dropWhile_nonempty: "dropWhile P xs \<noteq> [] \<Longrightarrow> last (dropWhile P xs) = last xs"
  by (metis last_appendR takeWhile_dropWhile_id)

lemma dropWhile_id_hd: "xs = [] \<or> \<not> P (hd xs) \<Longrightarrow> dropWhile P xs = xs"
  by (cases xs) auto

lemma strip_hd: "strip s \<noteq> [] \<Longrightarrow> \<not> isspace (hd (strip s))"
proof -
  assume ne: "strip s \<noteq> []"
  let ?t = "dropWhile isspace s"
  let ?u = "dropWhile isspace (rev ?t)"
  from ne have u: "?u \<noteq> []" by (simp add: strip_def)
  have t: "?t \<noteq> []"
  proof
    assume e: "?t = []"
    have "?u = []" unfolding e by simp
    with u show False by contradiction
  qed
  have "hd (strip s) = last ?u" by (simp add: strip_def hd_rev)
  also have "\<dots> = last (rev ?t)" using u by (rule last_dropWhile_nonempty)
  also have "\<dots> = hd ?t" using t by (simp add: last_rev)
  finally show ?thesis using t hd_dropWhile[of isspace s] by simp
qed

lemma strip_last: "strip s \<noteq> [] \<Longrightarrow> \<not> isspace (last (strip s))"
proof -
  assume ne: "strip s \<noteq> []"
  let ?u = "dropWhile isspace (rev (dropWhile isspace s))"
  from ne have u: "?u \<noteq> []" by (simp add: strip_def)
  have "last (strip s) = hd ?u" by (simp add: strip_def last_rev)
  then show ?thesis using u hd_dropWhile[of isspace "rev (dropWhile isspace s)"] by simp
qed

lemma strip_idem: "strip (strip s) = strip s"
proof (cases "strip s = []")
  case True
  have "strip [] = []" by (simp add: strip_def)
  with True show ?thesis by simp
next
  case False
  have l: "dropWhile isspace (strip s) = strip s"
    using strip_hd[OF False] by (intro dropWhile_id_hd) simp
  have r: "dropWhile isspace (rev (strip s)) = rev (strip s)"
    using strip_last[OF False] False by (intro dropWhile_id_hd) (simp add: hd_rev)
  show ?thesis
    unfolding strip_def[of "strip s"] l r by simp
qed

subsection \<open>The rendering loop\<close>

lemma render_loop_map: "render_loop lines ts = lines @ map turn_line ts"
  by (induction lines ts rule: render_loop.induct) (simp_all add: turn_line_def)

lemma prompt_lines:
  "fst (get_prompt_context system_prompt m) =
     join newline
       ((case system_prompt of
           None \<Rightarrow> []
         | Some sp \<Rightarrow> if sp = [] then [] else [strip sp]) @
        map turn_line (items (buffer m)))"
  by (simp add: get_prompt_context_def render_loop_map split: option.split)

subsection \<open>The deque and the invariant of the window\<close>

lemma deque_append_length:
  "length (items d) \<le> maxlen d \<Longrightarrow> length (items (deque_append x d)) \<le> maxlen d"
  by (auto simp: deque_append_def Let_def)

lemma deque_append_maxlen: "maxlen (deque_append x d) = maxlen d"
  by (simp add: deque_append_def Let_def)

lemma deque_append_snoc:
  "0 < maxlen d \<Longrightarrow> \<exists>prev. items (deque_append x d) = prev @ [x]"
  by (cases "items d") (auto simp: deque_append_def Let_def)

lemma init_inv:
  "ChatMemory_init N = Inr m0 \<Longrightarrow> window_inv N m0 \<and> items (buffer m0) = []"
  by (auto simp: ChatMemory_init_def deque_new_def window_inv_def split: if_splits sum.splits)

lemma apply_call_inv: "window_inv N m \<Longrightarrow> window_inv N (apply_call c m)"
  by (cases c)
    (auto simp: window_inv_def add_user_def add_bot_def clear_def deque_clear_def
      get_prompt_context_def deque_append_maxlen deque_append_length)

lemma run_inv: "window_inv N m \<Longrightarrow> window_inv N (run calls m)"
  unfolding run_def by (induction calls arbitrary: m) (simp_all add: apply_call_inv)

lemma init_one:
  "ChatMemory_init 1 = Inr \<lparr>buffer = \<lparr>items = [], maxlen = 2\<rparr>, max_turns = 1\<rparr>"
  by (simp add: ChatMemory_init_def deque_new_def PY_SSIZE_T_MAX_def)

section \<open>Properties\<close>

text \<open>
  C1. For every capacity \<open>N \<ge> 1\<close> and every finite sequence of calls on a memory
  constructed with \<^verbatim>\<open>max_turns = N\<close>, the buffer holds at most \<open>2 * N\<close> entries after
  each call (after every prefix \<open>take k calls\<close> of the sequence). The sequences
  here may also hold \<^verbatim>\<open>clear\<close> and \<^verbatim>\<open>get_prompt_context\<close> calls.
\<close>

theorem capacity_bound:
  assumes "1 \<le> N" and "ChatMemory_init N = Inr m0"
  shows "\<forall>k. int (length (items (buffer (run (take k calls) m0)))) \<le> 2 * N"
proof
  fix k
  from assms(2) have "window_inv N m0" by (simp add: init_inv)
  then have "window_inv N (run (take k calls) m0)" by (rule run_inv)
  then show "int (length (items (buffer (run (take k calls) m0)))) \<le> 2 * N"
    by (simp add: window_inv_def)
qed

theorem capacity_bound_witness:
  "(1::int) \<le> 1 \<and>
   ChatMemory_init 1 = Inr \<lparr>buffer = \<lparr>items = [], maxlen = 2\<rparr>, max_turns = 1\<rparr> \<and>
   (\<forall>k. int (length (items (buffer (run (take k [AddUser ''a'', AddBot ''b'', AddUser ''c''])
      \<lparr>buffer = \<lparr>items = [], maxlen = 2\<rparr>, max_turns = 1\<rparr>)))) \<le> 2 * 1)"
proof -
  have o: "(1::int) \<le> 1" by simp
  from capacity_bound [OF o init_one] init_one o show ?thesis by blast
qed

text \<open>
  C2, as stated, fails for a memory constructed with \<^verbatim>\<open>max_turns = 0\<close>: its empty
  buffer holds exactly \<open>2 * 0\<close> entries, there is no oldest entry to remove, and
  \<^verbatim>\<open>add_user("x")\<close> leaves the buffer empty instead of ending with the new turn.
\<close>

theorem fifo_eviction_capacity_zero:
  "ChatMemory_init 0 = Inr \<lparr>buffer = \<lparr>items = [], maxlen = 0\<rparr>, max_turns = 0\<rparr> \<and>
   int (length (items (buffer \<lparr>buffer = \<lparr>items = [], maxlen = 0\<rparr>, max_turns = 0\<rparr>))) = 2 * 0 \<and>
   items (buffer (add_user ''x'' \<lparr>buffer = \<lparr>items = [], maxlen = 0\<rparr>, max_turns = 0\<rparr>)) = [] \<and>
   items (buffer (add_user ''x'' \<lparr>buffer = \<lparr>items = [], maxlen = 0\<rparr>, max_turns = 0\<rparr>)) \<noteq>
     tl [] @ [(''user'', ''x'')]"
  by (simp add: ChatMemory_init_def deque_new_def PY_SSIZE_T_MAX_def add_user_def
      deque_append_def)

text \<open>
  C2 (amended). For every memory of capacity \<open>N \<ge> 1\<close> whose buffer holds exactly
  \<open>2 * N\<close> entries, \<^verbatim>\<open>add_user\<close> and \<^verbatim>\<open>add_bot\<close> remove exactly the front entry
  \<open>oldest\<close>, whatever its role, keep the others \<open>rest\<close> in their order and put the
  new turn, trimmed, at the end.
\<close>

theorem fifo_eviction:
  assumes "ChatMemory_init N = Inr m0" and "1 \<le> N"
    and "int (length (items (buffer (run calls m0)))) = 2 * N"
  shows "\<exists>oldest rest. items (buffer (run calls m0)) = oldest # rest \<and>
     items (buffer (add_user s (run calls m0))) = rest @ [(''user'', strip s)] \<and>
     items (buffer (add_bot s (run calls m0))) = rest @ [(''bot'', strip s)]"
proof -
  let ?m = "run calls m0"
  from assms(1) have "window_inv N ?m" by (simp add: init_inv run_inv)
  then have ml: "int (maxlen (buffer ?m)) = N * 2" by (simp add: window_inv_def)
  with assms(3) have full: "length (items (buffer ?m)) = maxlen (buffer ?m)" by simp
  from assms(2,3) have "items (buffer ?m) \<noteq> []" by auto
  then obtain oldest rest where c: "items (buffer ?m) = oldest # rest"
    by (cases "items (buffer ?m)") auto
  have "items (buffer (add_user s ?m)) = rest @ [(''user'', strip s)]"
    using c full by (simp add: add_user_def deque_append_def Let_def)
  moreover have "items (buffer (add_bot s ?m)) = rest @ [(''bot'', strip s)]"
    using c full by (simp add: add_bot_def deque_append_def Let_def)
  ultimately show ?thesis using c by blast
qed

theorem fifo_eviction_witness:
  "ChatMemory_init 1 = Inr \<lparr>buffer = \<lparr>items = [], maxlen = 2\<rparr>, max_turns = 1\<rparr> \<and>
   (1::int) \<le> 1 \<and>
   int (length (items (buffer (run [AddUser ''a'', AddBot ''b'']
      \<lparr>buffer = \<lparr>items = [], maxlen = 2\<rparr>, max_turns = 1\<rparr>)))) = 2 * 1 \<and>
   (\<exists>oldest rest.
      items (buffer (run [AddUser ''a'', AddBot ''b'']
        \<lparr>buffer = \<lparr>items = [], maxlen = 2\<rparr>, max_turns = 1\<rparr>)) = oldest # rest \<and>
      items (buffer (add_user ''c'' (run [AddUser ''a'', AddBot ''b'']
        \<lparr>buffer = \<lparr>items = [], maxlen = 2\<rparr>, max_turns = 1\<rparr>))) =
        rest @ [(''user'', strip ''c'')] \<and>
      items (buffer (add_bot ''c'' (run [AddUser ''a'', AddBot ''b'']
        \<lparr>buffer = \<lparr>items = [], maxlen = 2\<rparr>, max_turns = 1\<rparr>))) =
        rest @ [(''bot'', strip ''c'')])"
proof -
  let ?m0 = "\<lparr>buffer = \<lparr>items = [], maxlen = 2\<rparr>, max_turns = 1\<rparr>"
  have o: "(1::int) \<le> 1" by simp
  have f: "int (length (items (buffer (run [AddUser ''a'', AddBot ''b''] ?m0)))) = 2 * 1"
    by (simp add: run_def add_user_def add_bot_def deque_append_def)
  from fifo_eviction [OF init_one o f, of "''c''"] init_one o f show ?thesis by blast
qed

text \<open>
  C3, as stated, fails for a system prompt of blanks only: \<^verbatim>\<open>if system_prompt:\<close>
  tests the string before it is trimmed, so \<^verbatim>\<open>"  "\<close> does contribute a line, the
  empty one, and the prompt of a buffer holding the user turn \<^verbatim>\<open>x\<close> is
  \<^verbatim>\<open>"\nUser: x"\<close>, not \<^verbatim>\<open>"User: x"\<close>.
\<close>

theorem whitespace_system_prompt_line:
  "strip ''  '' = [] \<and>
   fst (get_prompt_context (Some ''  '')
     \<lparr>buffer = \<lparr>items = [(''user'', ''x'')], maxlen = 2\<rparr>, max_turns = 1\<rparr>) =
     newline @ ''User: x'' \<and>
   fst (get_prompt_context (Some ''  '')
     \<lparr>buffer = \<lparr>items = [(''user'', ''x'')], maxlen = 2\<rparr>, max_turns = 1\<rparr>) \<noteq> ''User: x''"
  by (simp add: get_prompt_context_def strip_def isspace_def)

text \<open>
  C3 (amended). For every buffer and every \<^verbatim>\<open>system_prompt\<close>, the prompt is the
  lines of the turns joined by newlines, with the trimmed \<^verbatim>\<open>system_prompt\<close> as a first
  line if and only if \<^verbatim>\<open>system_prompt\<close> is given and is not the empty string (before
  trimming). A non-empty prompt of whitespace only contributes an empty first line,
  and an empty buffer with no system prompt gives the empty string.
\<close>

theorem system_prompt_line:
  "get_prompt_context system_prompt m =
     (join newline
        ((case system_prompt of
            None \<Rightarrow> []
          | Some sp \<Rightarrow> if sp = [] then [] else [strip sp]) @
         map turn_line (items (buffer m))), m) \<and>
   (sp' \<noteq> [] \<and> strip sp' = [] \<longrightarrow>
      fst (get_prompt_context (Some sp') m) =
        join newline ([] # map turn_line (items (buffer m)))) \<and>
   (items (buffer m) = [] \<longrightarrow> fst (get_prompt_context None m) = [])"
  by (simp add: get_prompt_context_def render_loop_map split: option.split)

theorem system_prompt_line_witness:
  "''  '' \<noteq> [] \<and> strip ''  '' = [] \<and>
   fst (get_prompt_context (Some ''  '')
     \<lparr>buffer = \<lparr>items = [(''bot'', ''b'')], maxlen = 2\<rparr>, max_turns = 1\<rparr>) =
     newline @ ''Bot: b'' \<and>
   items (buffer \<lparr>buffer = \<lparr>items = [], maxlen = 2\<rparr>, max_turns = 1\<rparr>) = [] \<and>
   fst (get_prompt_context None \<lparr>buffer = \<lparr>items = [], maxlen = 2\<rparr>, max_turns = 1\<rparr>) = []"
proof -
  have s: "strip ''  '' = []" by (simp add: strip_def isspace_def)
  have n: "''  '' \<noteq> []" by simp
  have t: "join newline ([] # map turn_line [(''bot'', ''b'')]) = newline @ ''Bot: b''"
    by (simp add: turn_line_def)
  from system_prompt_line
    [of "Some ''  ''" "\<lparr>buffer = \<lparr>items = [(''bot'', ''b'')], maxlen = 2\<rparr>, max_turns = 1\<rparr>" "''  ''"]
    s n
  have 1: "fst (get_prompt_context (Some ''  '')
      \<lparr>buffer = \<lparr>items = [(''bot'', ''b'')], maxlen = 2\<rparr>, max_turns = 1\<rparr>) =
      join newline ([] # map turn_line [(''bot'', ''b'')])"
    by simp
  from system_prompt_line
    [of None "\<lparr>buffer = \<lparr>items = [], maxlen = 2\<rparr>, max_turns = 1\<rparr>"]
  have 2: "fst (get_prompt_context None
      \<lparr>buffer = \<lparr>items = [], maxlen = 2\<rparr>, max_turns = 1\<rparr>) = []"
    by simp
  from s n 1 2 t show ?thesis by simp
qed


text \<open>
  C4. With \<^verbatim>\<open>max_turns = 1\<close>, the calls \<^verbatim>\<open>add_user("a")\<close>, \<^verbatim>\<open>add_bot("b")\<close>,
  \<^verbatim>\<open>add_user("c")\<close> leave a memory whose \<^verbatim>\<open>get_prompt_context(None)\<close> is exactly
  \<^verbatim>\<open>"Bot: b\nUser: c"\<close>: the first user turn has been evicted.
\<close>

theorem eviction_scenario:
  "\<exists>m0. ChatMemory_init 1 = Inr m0 \<and>
     fst (get_prompt_context None (add_user ''c'' (add_bot ''b'' (add_user ''a'' m0)))) =
       ''Bot: b'' @ newline @ ''User: c''"
  by (simp add: ChatMemory_init_def deque_new_def PY_SSIZE_T_MAX_def add_user_def add_bot_def
      deque_append_def get_prompt_context_def strip_def isspace_def)

text \<open>
  C5, as stated, fails in two places. A memory constructed with \<^verbatim>\<open>max_turns = 0\<close>
  stores nothing, so \<^verbatim>\<open>add_user("hi")\<close> does not store the trimmed text there. And
  with \<^verbatim>\<open>max_turns = 1\<close> a message of blanks only is stored as the empty string and
  rendered as the line \<^verbatim>\<open>"User: "\<close>, which ends with a space.
\<close>

theorem add_trims_text_blank_or_capacity_zero:
  "ChatMemory_init 0 = Inr \<lparr>buffer = \<lparr>items = [], maxlen = 0\<rparr>, max_turns = 0\<rparr> \<and>
   items (buffer (add_user ''hi'' \<lparr>buffer = \<lparr>items = [], maxlen = 0\<rparr>, max_turns = 0\<rparr>)) = [] \<and>
   ChatMemory_init 1 = Inr \<lparr>buffer = \<lparr>items = [], maxlen = 2\<rparr>, max_turns = 1\<rparr> \<and>
   fst (get_prompt_context None
     (add_user ''   '' \<lparr>buffer = \<lparr>items = [], maxlen = 2\<rparr>, max_turns = 1\<rparr>)) = ''User: '' \<and>
   isspace (last (fst (get_prompt_context None
     (add_user ''   '' \<lparr>buffer = \<lparr>items = [], maxlen = 2\<rparr>, max_turns = 1\<rparr>))))"
  by (simp add: ChatMemory_init_def deque_new_def PY_SSIZE_T_MAX_def add_user_def
      deque_append_def get_prompt_context_def strip_def isspace_def)

text \<open>
  C5 (amended). In every state \<^verbatim>\<open>add_user("  hi  ")\<close> leaves exactly the memory that
  \<^verbatim>\<open>add_user("hi")\<close> leaves, and \<^verbatim>\<open>add_user(s)\<close>, \<^verbatim>\<open>add_bot(s)\<close> leave the memory
  they leave on the trimmed \<open>s\<close>. In every state of a constructed memory of capacity
  \<open>N \<ge> 1\<close> the last entry of the buffer is then the new turn with the trimmed text,
  and the last line of \<^verbatim>\<open>get_prompt_context\<close>, for every \<^verbatim>\<open>system_prompt\<close>, is
  \<^verbatim>\<open>"User: "\<close> or \<^verbatim>\<open>"Bot: "\<close> followed by the trimmed text (\<^verbatim>\<open>"User: hi"\<close> for
  \<^verbatim>\<open>"  hi  "\<close>). When the trimmed text is not empty, neither it nor that line starts
  or ends with whitespace; for a blank message the line is the bare prefix.
\<close>

theorem add_trims_text:
  assumes "ChatMemory_init N = Inr m0"
  shows "add_user ''  hi  '' m = add_user ''hi'' m \<and>
   add_user s m = add_user (strip s) m \<and>
   add_bot s m = add_bot (strip s) m \<and>
   (1 \<le> N \<longrightarrow>
      (\<exists>prev. items (buffer (add_user s (run calls m0))) = prev @ [(''user'', strip s)] \<and>
         fst (get_prompt_context system_prompt (add_user s (run calls m0))) =
           join newline
             ((case system_prompt of
                 None \<Rightarrow> []
               | Some sp \<Rightarrow> if sp = [] then [] else [strip sp]) @
              map turn_line prev @ [''User: '' @ strip s])) \<and>
      (\<exists>prev. items (buffer (add_bot s (run calls m0))) = prev @ [(''bot'', strip s)] \<and>
         fst (get_prompt_context system_prompt (add_bot s (run calls m0))) =
           join newline
             ((case system_prompt of
                 None \<Rightarrow> []
               | Some sp \<Rightarrow> if sp = [] then [] else [strip sp]) @
              map turn_line prev @ [''Bot: '' @ strip s]))) \<and>
   strip ''  hi  '' = ''hi'' \<and>
   (strip s \<noteq> [] \<longrightarrow>
      \<not> isspace (hd (strip s)) \<and> \<not> isspace (last (strip s)) \<and>
      \<not> isspace (hd (''User: '' @ strip s)) \<and> \<not> isspace (last (''User: '' @ strip s)) \<and>
      \<not> isspace (hd (''Bot: '' @ strip s)) \<and> \<not> isspace (last (''Bot: '' @ strip s))) \<and>
   (strip s = [] \<longrightarrow> ''User: '' @ strip s = ''User: '' \<and> ''Bot: '' @ strip s = ''Bot: '')"
proof -
  let ?m = "run calls m0"
  let ?sys = "case system_prompt of
      None \<Rightarrow> [] | Some sp \<Rightarrow> if sp = [] then [] else [strip sp]"
  have hi: "strip ''  hi  '' = ''hi''" by (simp add: strip_def isspace_def)
  have 1: "add_user ''  hi  '' m = add_user ''hi'' m"
    by (simp add: add_user_def strip_def isspace_def)
  have 2: "add_user s m = add_user (strip s) m"
    by (simp add: add_user_def strip_idem)
  have 3: "add_bot s m = add_bot (strip s) m"
    by (simp add: add_bot_def strip_idem)
  have 4: "(\<exists>prev. items (buffer (add_user s ?m)) = prev @ [(''user'', strip s)] \<and>
         fst (get_prompt_context system_prompt (add_user s ?m)) =
           join newline (?sys @ map turn_line prev @ [''User: '' @ strip s])) \<and>
      (\<exists>prev. items (buffer (add_bot s ?m)) = prev @ [(''bot'', strip s)] \<and>
         fst (get_prompt_context system_prompt (add_bot s ?m)) =
           join newline (?sys @ map turn_line prev @ [''Bot: '' @ strip s]))"
    if n: "1 \<le> N"
  proof -
    from assms have "window_inv N ?m" by (simp add: init_inv run_inv)
    with n have room: "0 < maxlen (buffer ?m)" by (simp add: window_inv_def)
    from deque_append_snoc [OF room, of "(''user'', strip s)"]
    obtain pu where pu: "items (buffer (add_user s ?m)) = pu @ [(''user'', strip s)]"
      by (auto simp: add_user_def)
    from deque_append_snoc [OF room, of "(''bot'', strip s)"]
    obtain pb where pb: "items (buffer (add_bot s ?m)) = pb @ [(''bot'', strip s)]"
      by (auto simp: add_bot_def)
    have "fst (get_prompt_context system_prompt (add_user s ?m)) =
        join newline (?sys @ map turn_line pu @ [''User: '' @ strip s])"
      by (simp add: prompt_lines pu turn_line_def)
    moreover have "fst (get_prompt_context system_prompt (add_bot s ?m)) =
        join newline (?sys @ map turn_line pb @ [''Bot: '' @ strip s])"
      by (simp add: prompt_lines pb turn_line_def)
    ultimately show ?thesis using pu pb by blast
  qed
  have 5: "\<not> isspace (hd (strip s)) \<and> \<not> isspace (last (strip s)) \<and>
      \<not> isspace (hd (''User: '' @ strip s)) \<and> \<not> isspace (last (''User: '' @ strip s)) \<and>
      \<not> isspace (hd (''Bot: '' @ strip s)) \<and> \<not> isspace (last (''Bot: '' @ strip s))"
    if ne: "strip s \<noteq> []"
  proof -
    have u: "\<not> isspace CHR ''U''" and b: "\<not> isspace CHR ''B''"
      by (simp_all add: isspace_def)
    from ne have "last (''User: '' @ strip s) = last (strip s)"
      and "last (''Bot: '' @ strip s) = last (strip s)" by simp_all
    with strip_hd [OF ne] strip_last [OF ne] u b show ?thesis by simp
  qed
  have 6: "strip s = [] \<longrightarrow> ''User: '' @ strip s = ''User: '' \<and> ''Bot: '' @ strip s = ''Bot: ''"
    by simp
  from 1 2 3 4 hi 5 6 show ?thesis by blast
qed

theorem add_trims_text_witness:
  "ChatMemory_init 1 = Inr \<lparr>buffer = \<lparr>items = [], maxlen = 2\<rparr>, max_turns = 1\<rparr> \<and>
   (1::int) \<le> 1 \<and> strip ''  hi  '' \<noteq> [] \<and>
   (\<exists>prev. items (buffer (add_user ''  hi  '' (run [AddUser ''a'', AddBot ''b'']
        \<lparr>buffer = \<lparr>items = [], maxlen = 2\<rparr>, max_turns = 1\<rparr>))) =
        prev @ [(''user'', strip ''  hi  '')] \<and>
      fst (get_prompt_context None (add_user ''  hi  '' (run [AddUser ''a'', AddBot ''b'']
        \<lparr>buffer = \<lparr>items = [], maxlen = 2\<rparr>, max_turns = 1\<rparr>))) =
        join newline (map turn_line prev @ [''User: '' @ strip ''  hi  ''])) \<and>
   \<not> isspace (hd (''User: '' @ strip ''  hi  '')) \<and>
   \<not> isspace (last (''User: '' @ strip ''  hi  ''))"
proof -
  let ?m0 = "\<lparr>buffer = \<lparr>items = [], maxlen = 2\<rparr>, max_turns = 1\<rparr>"
  have o: "(1::int) \<le> 1" by simp
  have ne: "strip ''  hi  '' \<noteq> []" by (simp add: strip_def isspace_def)
  note t = add_trims_text
    [OF init_one, of ?m0 "''  hi  ''" "[AddUser ''a'', AddBot ''b'']" None]
  from t o have "\<exists>prev. items (buffer (add_user ''  hi  ''
        (run [AddUser ''a'', AddBot ''b''] ?m0))) = prev @ [(''user'', strip ''  hi  '')] \<and>
      fst (get_prompt_context None (add_user ''  hi  ''
        (run [AddUser ''a'', AddBot ''b''] ?m0))) =
        join newline ((case None of None \<Rightarrow> [] | Some sp \<Rightarrow> if sp = [] then [] else [strip sp]) @
           map turn_line prev @ [''User: '' @ strip ''  hi  ''])"
    by blast
  then have a: "\<exists>prev. items (buffer (add_user ''  hi  ''
        (run [AddUser ''a'', AddBot ''b''] ?m0))) = prev @ [(''user'', strip ''  hi  '')] \<and>
      fst (get_prompt_context None (add_user ''  hi  ''
        (run [AddUser ''a'', AddBot ''b''] ?m0))) =
        join newline (map turn_line prev @ [''User: '' @ strip ''  hi  ''])"
    by (simp only: option.case append_Nil)
  from t ne have b: "\<not> isspace (hd (''User: '' @ strip ''  hi  '')) \<and>
      \<not> isspace (last (''User: '' @ strip ''  hi  ''))"
    by blast
  from init_one o ne a b show ?thesis by blast
qed

text \<open>
  C6. \<^verbatim>\<open>get_prompt_context\<close> leaves the memory as it found it, and a second call
  with the same argument, nothing having changed in between, returns the same
  string (and the same memory).
\<close>

theorem get_prompt_context_pure:
  "snd (get_prompt_context system_prompt m) = m \<and>
   get_prompt_context system_prompt (snd (get_prompt_context system_prompt m)) =
     get_prompt_context system_prompt m"
  by (simp add: get_prompt_context_def)

text \<open>
  C7, as stated, fails for a memory constructed with \<^verbatim>\<open>max_turns = 0\<close>: after
  \<^verbatim>\<open>clear()\<close> and \<^verbatim>\<open>add_user("x")\<close> its prompt is the empty string, not
  \<^verbatim>\<open>"User: x"\<close>.
\<close>

theorem clear_then_add_capacity_zero:
  "ChatMemory_init 0 = Inr \<lparr>buffer = \<lparr>items = [], maxlen = 0\<rparr>, max_turns = 0\<rparr> \<and>
   fst (get_prompt_context None
     (add_user ''x'' (clear \<lparr>buffer = \<lparr>items = [], maxlen = 0\<rparr>, max_turns = 0\<rparr>))) = [] \<and>
   fst (get_prompt_context None
     (add_user ''x'' (clear \<lparr>buffer = \<lparr>items = [], maxlen = 0\<rparr>, max_turns = 0\<rparr>))) \<noteq>
     ''User: x''"
  by (simp add: ChatMemory_init_def deque_new_def PY_SSIZE_T_MAX_def add_user_def
      deque_append_def clear_def deque_clear_def get_prompt_context_def)

text \<open>
  C7 (amended). In every state of a constructed memory, \<^verbatim>\<open>clear()\<close> empties the
  buffer and leaves \<^verbatim>\<open>max_turns\<close> and the deque's \<^verbatim>\<open>maxlen\<close> as they were; a second
  \<^verbatim>\<open>clear()\<close> changes nothing; after \<^verbatim>\<open>clear()\<close> the prompt without a system prompt
  is the empty string; and when the capacity is at least 1, a following
  \<^verbatim>\<open>add_user("x")\<close> makes it exactly \<^verbatim>\<open>"User: x"\<close>.
\<close>

theorem clear_resets_content:
  assumes "ChatMemory_init N = Inr m0"
  shows "items (buffer (clear (run calls m0))) = [] \<and>
     max_turns (clear (run calls m0)) = max_turns (run calls m0) \<and>
     maxlen (buffer (clear (run calls m0))) = maxlen (buffer (run calls m0)) \<and>
     clear (clear (run calls m0)) = clear (run calls m0) \<and>
     fst (get_prompt_context None (clear (run calls m0))) = [] \<and>
     (1 \<le> N \<longrightarrow>
        fst (get_prompt_context None (add_user ''x'' (clear (run calls m0)))) = ''User: x'')"
proof -
  let ?m = "run calls m0"
  from assms have "window_inv N ?m" by (simp add: init_inv run_inv)
  then have ml: "int (maxlen (buffer ?m)) = N * 2" by (simp add: window_inv_def)
  have "1 \<le> N \<longrightarrow>
        fst (get_prompt_context None (add_user ''x'' (clear ?m))) = ''User: x''"
  proof
    assume "1 \<le> N"
    with ml have "0 < maxlen (buffer ?m)" by simp
    then show "fst (get_prompt_context None (add_user ''x'' (clear ?m))) = ''User: x''"
      by (simp add: get_prompt_context_def add_user_def clear_def deque_clear_def
          deque_append_def strip_def isspace_def)
  qed
  then show ?thesis
    by (simp add: clear_def deque_clear_def get_prompt_context_def)
qed

theorem clear_resets_content_witness:
  "ChatMemory_init 1 = Inr \<lparr>buffer = \<lparr>items = [], maxlen = 2\<rparr>, max_turns = 1\<rparr> \<and>
   (1::int) \<le> 1 \<and>
   items (buffer (clear (run [AddUser ''a'', AddBot ''b'']
     \<lparr>buffer = \<lparr>items = [], maxlen = 2\<rparr>, max_turns = 1\<rparr>))) = [] \<and>
   fst (get_prompt_context None (add_user ''x'' (clear (run [AddUser ''a'', AddBot ''b'']
     \<lparr>buffer = \<lparr>items = [], maxlen = 2\<rparr>, max_turns = 1\<rparr>)))) = ''User: x''"
proof -
  have o: "(1::int) \<le> 1" by simp
  from clear_resets_content [OF init_one, of "[AddUser ''a'', AddBot ''b'']"] init_one o
  show ?thesis by blast
qed

text \<open>
  C8, as stated, fails at \<^verbatim>\<open>max_turns = 0\<close>: \<^verbatim>\<open>deque(maxlen=0)\<close> is a valid deque and
  \<^verbatim>\<open>__init__\<close> has no check of its own, so the construction succeeds.
\<close>

theorem construction_accepts_zero:
  "ChatMemory_init 0 = Inr \<lparr>buffer = \<lparr>items = [], maxlen = 0\<rparr>, max_turns = 0\<rparr>"
  by (simp add: ChatMemory_init_def deque_new_def PY_SSIZE_T_MAX_def)

text \<open>
  C8 (amended). Constructing a memory with a negative \<^verbatim>\<open>max_turns\<close> fails at
  construction time, for every negative value: with the deque's ValueError, or
  with OverflowError when \<^verbatim>\<open>max_turns * 2\<close> is below the least \<^verbatim>\<open>Py_ssize_t\<close>.
\<close>

theorem construction_rejects_negative:
  "n < 0 \<Longrightarrow>
   ChatMemory_init n = Inl (if n * 2 < - PY_SSIZE_T_MAX - 1 then OverflowError else ValueError)"
  by (simp add: ChatMemory_init_def deque_new_def PY_SSIZE_T_MAX_def)

theorem construction_rejects_negative_witness:
  "(- 1 :: int) < 0 \<and> ChatMemory_init (- 1) = Inl ValueError"
  using construction_rejects_negative [of "- 1"] by (simp add: PY_SSIZE_T_MAX_def)

text \<open>
  C9. In every state of a constructed memory whose buffer holds fewer than
  \<open>2 * N\<close> entries, \<^verbatim>\<open>add_user\<close> and \<^verbatim>\<open>add_bot\<close> evict nothing: the buffer is the old
  one, entry for entry, with the new turn after it, and is one entry longer.
\<close>

theorem add_below_capacity:
  assumes "ChatMemory_init N = Inr m0"
    and "int (length (items (buffer (run calls m0)))) < 2 * N"
  shows "items (buffer (add_user s (run calls m0))) =
           items (buffer (run calls m0)) @ [(''user'', strip s)] \<and>
         items (buffer (add_bot s (run calls m0))) =
           items (buffer (run calls m0)) @ [(''bot'', strip s)] \<and>
         length (items (buffer (add_user s (run calls m0)))) =
           Suc (length (items (buffer (run calls m0)))) \<and>
         length (items (buffer (add_bot s (run calls m0)))) =
           Suc (length (items (buffer (run calls m0))))"
proof -
  let ?m = "run calls m0"
  from assms(1) have "window_inv N ?m" by (simp add: init_inv run_inv)
  then have "int (maxlen (buffer ?m)) = N * 2" by (simp add: window_inv_def)
  with assms(2) have room: "length (items (buffer ?m)) < maxlen (buffer ?m)" by simp
  then show ?thesis by (simp add: add_user_def add_bot_def deque_append_def Let_def)
qed

theorem add_below_capacity_witness:
  "ChatMemory_init 1 = Inr \<lparr>buffer = \<lparr>items = [], maxlen = 2\<rparr>, max_turns = 1\<rparr> \<and>
   int (length (items (buffer (run [AddUser ''a'']
     \<lparr>buffer = \<lparr>items = [], maxlen = 2\<rparr>, max_turns = 1\<rparr>)))) < 2 * 1 \<and>
   items (buffer (add_bot '' b '' (run [AddUser ''a'']
     \<lparr>buffer = \<lparr>items = [], maxlen = 2\<rparr>, max_turns = 1\<rparr>))) =
     items (buffer (run [AddUser ''a'']
       \<lparr>buffer = \<lparr>items = [], maxlen = 2\<rparr>, max_turns = 1\<rparr>)) @ [(''bot'', strip '' b '')]"
proof -
  let ?m0 = "\<lparr>buffer = \<lparr>items = [], maxlen = 2\<rparr>, max_turns = 1\<rparr>"
  have l: "int (length (items (buffer (run [AddUser ''a''] ?m0)))) < 2 * 1"
    by (simp add: run_def add_user_def deque_append_def)
  from add_below_capacity [OF init_one l, of "'' b ''"] init_one l show ?thesis by blast
qed

text \<open>
  C10. \<^verbatim>\<open>ChatMemory(max_turns=0)\<close> is constructed without error and stays empty:
  after any sequence of calls the buffer holds nothing and
  \<^verbatim>\<open>get_prompt_context(None)\<close> is the empty string.
\<close>

theorem zero_capacity_window:
  "\<exists>m0. ChatMemory_init 0 = Inr m0 \<and>
     (\<forall>calls. items (buffer (run calls m0)) = [] \<and>
        fst (get_prompt_context None (run calls m0)) = [])"
proof -
  let ?m0 = "\<lparr>buffer = \<lparr>items = [], maxlen = 0\<rparr>, max_turns = 0\<rparr>"
  have i: "ChatMemory_init 0 = Inr ?m0"
    by (simp add: ChatMemory_init_def deque_new_def PY_SSIZE_T_MAX_def)
  have "items (buffer (run calls ?m0)) = [] \<and>
        fst (get_prompt_context None (run calls ?m0)) = []" for calls
  proof -
    from i have "window_inv 0 (run calls ?m0)" by (simp add: init_inv run_inv)
    then have "items (buffer (run calls ?m0)) = []" by (auto simp: window_inv_def)
    then show ?thesis by (simp add: get_prompt_context_def)
  qed
  with i show ?thesis by blast
qed

end
